theory Spec2Isabelle
  imports Complex_Main
begin

section \<open>Exceptions and values crossing the boundary of \<open>train/run.py\<close>\<close>

text \<open>
  The module catches two exception classes by name: \<open>RuntimeError\<close> in
  \<open>save_params\<close> and \<open>KeyboardInterrupt\<close> in \<open>run\<close>. An exception is
  therefore classified by which of the two \<open>except\<close> clauses it matches:
  \<open>RuntimeError\<close> stands for an instance of \<open>RuntimeError\<close> (or of a subclass),
  \<open>KeyboardInterrupt\<close> likewise, and \<open>OtherException\<close> for an exception that
  neither clause matches (its class name is carried along).
\<close>

datatype exn = KeyboardInterrupt | RuntimeError string | OtherException string

text \<open>A \<open>TFLiteModel\<close> instance (declared in \<open>train.models\<close>), identified by name.\<close>

datatype tflite_model = TFLiteModel string

text \<open>The framework's \<open>Scalar\<close>, the value type of a metrics dictionary.\<close>

datatype scalar = SBool bool | SInt int | SFloat real | SStr string | SBytes "nat list"

type_synonym metrics = "string \<rightharpoonup> scalar"

text \<open>
  \<open>FitRes\<close>: the fields \<open>aggregate_fit\<close> reads. \<open>'p\<close> is the framework's
  \<open>Parameters\<close> wire format.
\<close>

record 'p fit_res =
  parameters :: 'p
  num_examples :: int

section \<open>The aggregation strategy \<open>FedAvgAndroidSave\<close>\<close>

text \<open>
  The attributes of the strategy object that the two overridden methods read:
  \<open>accept_failures\<close> (inherited) and \<open>model\<close> (class attribute, default \<open>None\<close>).
\<close>

record strategy =
  accept_failures :: bool
  model :: "tflite_model option"

text \<open>
  What the methods call but the module does not define: the two conversions
  inherited from \<open>FedAvgAndroid\<close>, the framework's \<open>aggregate\<close>, and
  \<open>ModelParams.save\<close> of \<open>train.models\<close>. They are parameters of the model.
  \<open>'a\<close> is one \<open>NDArray\<close>. \<open>save params m\<close> is the outcome of
  \<open>ModelParams(params=params, tflite_model=m).save()\<close>: \<open>None\<close> when it
  returns, \<open>Some e\<close> when it raises \<open>e\<close>.
\<close>

record ('p, 'a) framework =
  parameters_to_ndarrays :: "'p \<Rightarrow> 'a list"
  ndarrays_to_parameters :: "'a list \<Rightarrow> 'p"
  aggregate :: "('a list \<times> int) list \<Rightarrow> 'a list"
  save :: "'a list \<Rightarrow> tflite_model \<Rightarrow> exn option"

text \<open>
  The observable steps of the persistence path, in the order they happen:
  the call of \<open>save_params\<close> at line 41, the construction of the \<open>ModelParams\<close>
  binding at line 49, the call of its \<open>save\<close> at line 51, and
  \<open>logger.error(err)\<close> at line 53.
\<close>

datatype 'a effect =
    Call_save_params "'a list"
  | New_ModelParams "'a list" tflite_model
  | Call_save "'a list" tflite_model
  | Log_error exn

text \<open>Lines 44-53. The result is \<open>Inl e\<close> when the method raises \<open>e\<close>.\<close>

definition save_params ::
  "('p, 'a) framework \<Rightarrow> strategy \<Rightarrow> 'a list \<Rightarrow> (exn + unit) \<times> 'a effect list" where
  "save_params fw self params =
     (case model self of
        None \<Rightarrow> (Inr (), [])
      | Some m \<Rightarrow>
          (case save fw params m of
             None \<Rightarrow> (Inr (), [New_ModelParams params m, Call_save params m])
           | Some (RuntimeError msg) \<Rightarrow>
               (Inr (), [New_ModelParams params m, Call_save params m,
                         Log_error (RuntimeError msg)])
           | Some err \<Rightarrow> (Inl err, [New_ModelParams params m, Call_save params m])))"

text \<open>Lines 36-39: the list comprehension building \<open>weights_results\<close>.\<close>

definition weights_results ::
  "('p, 'a) framework \<Rightarrow> ('c \<times> 'p fit_res) list \<Rightarrow> ('a list \<times> int) list" where
  "weights_results fw results =
     map (\<lambda>(client, fit_res).
            (parameters_to_ndarrays fw (parameters fit_res), num_examples fit_res))
         results"

text \<open>
  Lines 21-42. A failure is either a (client, result) pair or an exception;
  the method only tests the list for emptiness.
\<close>

definition aggregate_fit ::
  "('p, 'a) framework \<Rightarrow> strategy \<Rightarrow> int \<Rightarrow> ('c \<times> 'p fit_res) list \<Rightarrow>
   (('c \<times> 'p fit_res) + exn) list \<Rightarrow>
   (exn + ('p option \<times> metrics)) \<times> 'a effect list" where
  "aggregate_fit fw self server_round results failures =
     (if results = [] then (Inr (None, Map.empty), [])
      else if \<not> accept_failures self \<and> failures \<noteq> [] then (Inr (None, Map.empty), [])
      else
        (let aggregated = aggregate fw (weights_results fw results);
             saved = save_params fw self aggregated
         in case fst saved of
              Inl err \<Rightarrow> (Inl err, Call_save_params aggregated # snd saved)
            | Inr _ \<Rightarrow>
                (Inr (Some (ndarrays_to_parameters fw aggregated), Map.empty),
                 Call_save_params aggregated # snd saved)))"

text \<open>Lines 56-66.\<close>

definition fit_config :: "int \<Rightarrow> (string \<rightharpoonup> int)" where
  "fit_config server_round = [''batch_size'' \<mapsto> 32, ''local_epochs'' \<mapsto> 5]"

section \<open>Server bootstrap and command dispatcher\<close>

text \<open>
  An object read from the channel: \<open>None\<close>, a string, an integer, or a
  \<open>TFLiteModel\<close> instance. \<open>isinstance(msg, TFLiteModel)\<close> holds for
  \<open>PyModel\<close> only.
\<close>

datatype pyval = PyNone | PyStr string | PyInt int | PyModel tflite_model

text \<open>
  Line 93, \<open>kind, msg = conn.recv()\<close>: it either binds a pair or raises
  (the blocking read is interrupted, the peer is gone, or the object read is
  not a pair).
\<close>

datatype recv_result = Message pyval pyval | Recv_raises exn

definition PORT :: int where
  "PORT = 8080"

text \<open>
  The arguments with which \<open>server\<close> calls \<open>start_server\<close> (lines 71-88):
  the keyword arguments given to the strategy's constructor, the \<open>model\<close>
  attribute set at line 81, the address as host and port, and the number of
  rounds. \<open>evaluate_fn\<close> and \<open>initial_parameters\<close> are \<open>None\<close>.
\<close>

record server_args =
  fraction_fit :: real
  fraction_evaluate :: real
  min_fit_clients :: int
  min_evaluate_clients :: int
  min_available_clients :: int
  on_fit_config_fn :: "int \<Rightarrow> (string \<rightharpoonup> int)"
  target_model :: "tflite_model option"
  server_host :: string
  server_port :: int
  num_rounds :: int

datatype level = WARNING | ERROR

text \<open>The five log messages of lines 95, 98, 103, 107 and 113, with their arguments.\<close>

datatype log_message =
    Received pyval
  | Launching_server pyval
  | Unknown_argument pyval
  | Unknown_kind pyval pyval
  | Runner_started

datatype io = Logged level log_message | Sent string | Start_server server_args

text \<open>
  The world outside the process: what the \<open>n\<close>-th \<open>conn.recv()\<close> yields, and
  how the \<open>n\<close>-th call of \<open>start_server\<close> ends (\<open>None\<close>: it returns after its
  rounds, \<open>Some e\<close>: it raises \<open>e\<close>).
\<close>

record channel =
  incoming :: "nat \<Rightarrow> recv_result"
  start_server :: "nat \<Rightarrow> server_args \<Rightarrow> exn option"

text \<open>
  The dispatcher's progress: how many reads and server starts have happened,
  and the log, replies and server starts so far, oldest first.
\<close>

record progress =
  recvs :: nat
  starts :: nat
  trace :: "io list"

definition emit :: "io list \<Rightarrow> progress \<Rightarrow> progress" where
  "emit evs st = st\<lparr>trace := trace st @ evs\<rparr>"

definition args_for :: "tflite_model option \<Rightarrow> server_args" where
  "args_for m =
     \<lparr>fraction_fit = 1, fraction_evaluate = 1, min_fit_clients = 2,
      min_evaluate_clients = 2, min_available_clients = 2,
      on_fit_config_fn = fit_config, target_model = m,
      server_host = ''0.0.0.0'', server_port = PORT, num_rounds = 10\<rparr>"

text \<open>Lines 69-88.\<close>

definition server :: "channel \<Rightarrow> tflite_model option \<Rightarrow> progress \<Rightarrow> (exn + unit) \<times> progress" where
  "server ch m st =
     (let st' = emit [Start_server (args_for m)] (st\<lparr>starts := Suc (starts st)\<rparr>)
      in case start_server ch (starts st) (args_for m) of
           None \<Rightarrow> (Inr (), st')
         | Some e \<Rightarrow> (Inl e, st'))"

text \<open>
  Lines 91-108. Here a log call and a \<open>conn.send\<close> append to the trace and
  return, and what can raise inside \<open>execute\<close> is the read at line 93 and the
  server start; \<open>execute_full\<close> below lets the send raise as well.
\<close>

definition execute :: "channel \<Rightarrow> progress \<Rightarrow> (exn + unit) \<times> progress" where
  "execute ch st =
     (case incoming ch (recvs st) of
        Recv_raises e \<Rightarrow> (Inl e, st\<lparr>recvs := Suc (recvs st)\<rparr>)
      | Message kind msg \<Rightarrow>
          (let st1 = st\<lparr>recvs := Suc (recvs st)\<rparr> in
           if kind = PyStr ''ping'' then
             (Inr (), emit [Logged WARNING (Received msg), Sent ''pong''] st1)
           else if kind = PyStr ''server'' then
             (let st2 = emit [Logged WARNING (Launching_server msg)] st1;
                  launched =
                    (case msg of
                       PyModel m \<Rightarrow> server ch (Some m) st2
                     | _ \<Rightarrow>
                         server ch None
                           (if msg \<noteq> PyNone
                            then emit [Logged ERROR (Unknown_argument msg)] st2
                            else st2))
              in case fst launched of
                   Inl e \<Rightarrow> (Inl e, snd launched)
                 | Inr _ \<Rightarrow> (Inr (), emit [Sent ''done''] (snd launched)))
           else
             (Inr (), emit [Logged ERROR (Unknown_kind kind msg),
                            Sent ''cannot understand''] st1)))"

text \<open>
  Lines 114-118, the \<open>while True\<close> loop. It may run forever, so its result is
  an option: \<open>None\<close> when the loop never ends, \<open>Some (Inr (), st)\<close> when
  \<open>run\<close> returns, \<open>Some (Inl e, st)\<close> when \<open>e\<close> leaves \<open>run\<close>.
\<close>

partial_function (option) run_loop ::
  "channel \<Rightarrow> progress \<Rightarrow> ((exn + unit) \<times> progress) option" where
  "run_loop ch st =
     (case execute ch st of
        (Inr _, st') \<Rightarrow> run_loop ch st'
      | (Inl KeyboardInterrupt, st') \<Rightarrow> Some (Inr (), st')
      | (Inl e, st') \<Rightarrow> Some (Inl e, st'))"

text \<open>Lines 111-118.\<close>

definition run :: "channel \<Rightarrow> progress \<Rightarrow> ((exn + unit) \<times> progress) option" where
  "run ch st = run_loop ch (emit [Logged WARNING Runner_started] st)"

text \<open>
  The progress after \<open>n\<close> iterations of the loop body, and the replies in a trace.
\<close>

fun after :: "nat \<Rightarrow> channel \<Rightarrow> progress \<Rightarrow> progress" where
  "after 0 ch st = st"
| "after (Suc n) ch st = after n ch (snd (execute ch st))"

definition replies :: "io list \<Rightarrow> string list" where
  "replies tr = concat (map (\<lambda>ev. case ev of Sent s \<Rightarrow> [s] | _ \<Rightarrow> []) tr)"

definition server_starts :: "io list \<Rightarrow> server_args list" where
  "server_starts tr = concat (map (\<lambda>ev. case ev of Start_server a \<Rightarrow> [a] | _ \<Rightarrow> []) tr)"

text \<open>\<open>isinstance(err, RuntimeError)\<close> and the model a payload carries, if any.\<close>

fun is_RuntimeError :: "exn \<Rightarrow> bool" where
  "is_RuntimeError (RuntimeError msg) = True"
| "is_RuntimeError KeyboardInterrupt = False"
| "is_RuntimeError (OtherException name) = False"


section \<open>Sample inputs\<close>

text \<open>
  A small instance of the framework on which the theorems below are evaluated:
  an array is a rational number, the wire format tags the list of arrays with
  its tensor type, and the aggregation multiplies each client's arrays by its
  example count, adds them position by position and divides by the total count.
\<close>

definition sample_to_ndarrays :: "string \<times> rat list \<Rightarrow> rat list" where
  "sample_to_ndarrays p = snd p"

definition sample_to_parameters :: "rat list \<Rightarrow> string \<times> rat list" where
  "sample_to_parameters arrays = (''numpy.ndarray'', arrays)"

fun sample_add :: "rat list \<Rightarrow> rat list \<times> int \<Rightarrow> rat list" where
  "sample_add acc (w, n) = map2 (\<lambda>a b. a + b * of_int n) acc w"

fun sample_aggregate :: "(rat list \<times> int) list \<Rightarrow> rat list" where
  "sample_aggregate [] = []"
| "sample_aggregate ((w, n) # rest) =
     map (\<lambda>x. x / of_int (sum_list (map snd ((w, n) # rest))))
         (foldl sample_add (map (\<lambda>x. x * of_int n) w) rest)"

fun save_succeeds :: "rat list \<Rightarrow> tflite_model \<Rightarrow> exn option" where
  "save_succeeds params m = None"

fun save_shape_mismatch :: "rat list \<Rightarrow> tflite_model \<Rightarrow> exn option" where
  "save_shape_mismatch params m = Some (RuntimeError ''shape mismatch'')"

fun save_disk_full :: "rat list \<Rightarrow> tflite_model \<Rightarrow> exn option" where
  "save_disk_full params m = Some (OtherException ''OSError'')"

definition sample_framework ::
  "(rat list \<Rightarrow> tflite_model \<Rightarrow> exn option) \<Rightarrow> (string \<times> rat list, rat) framework" where
  "sample_framework sv =
     \<lparr>parameters_to_ndarrays = sample_to_ndarrays,
      ndarrays_to_parameters = sample_to_parameters,
      aggregate = sample_aggregate, save = sv\<rparr>"

definition sample_results :: "(nat \<times> (string \<times> rat list) fit_res) list" where
  "sample_results =
     [(1, \<lparr>parameters = (''numpy.ndarray'', [1, 2]), num_examples = 1\<rparr>),
      (2, \<lparr>parameters = (''numpy.ndarray'', [3, 4]), num_examples = 3\<rparr>)]"

definition sample_failures :: "((nat \<times> (string \<times> rat list) fit_res) + exn) list" where
  "sample_failures = [Inr (OtherException ''TimeoutError'')]"

definition with_model :: strategy where
  "with_model = \<lparr>accept_failures = True, model = Some (TFLiteModel ''cifar10'')\<rparr>"

definition without_model :: strategy where
  "without_model = \<lparr>accept_failures = True, model = None\<rparr>"

definition strict_strategy :: strategy where
  "strict_strategy = \<lparr>accept_failures = False, model = Some (TFLiteModel ''cifar10'')\<rparr>"

text \<open>
  Sample channels: a finite script of reads, after which every read is
  interrupted, and a fixed outcome of every server start.
\<close>

fun script_at :: "recv_result list \<Rightarrow> nat \<Rightarrow> recv_result" where
  "script_at [] n = Recv_raises KeyboardInterrupt"
| "script_at (x # xs) 0 = x"
| "script_at (x # xs) (Suc n) = script_at xs n"

fun server_returns :: "nat \<Rightarrow> server_args \<Rightarrow> exn option" where
  "server_returns n a = None"


definition scripted :: "recv_result list \<Rightarrow> (nat \<Rightarrow> server_args \<Rightarrow> exn option) \<Rightarrow> channel" where
  "scripted script outcome = \<lparr>incoming = script_at script, start_server = outcome\<rparr>"

fun always_ping :: "nat \<Rightarrow> recv_result" where
  "always_ping n = Message (PyStr ''ping'') (PyStr ''hello'')"

definition pinging :: channel where
  "pinging = \<lparr>incoming = always_ping, start_server = server_returns\<rparr>"

definition idle :: progress where
  "idle = \<lparr>recvs = 0, starts = 0, trace = []\<rparr>"

section \<open>The same operations when every external call may raise\<close>

text \<open>
  \<open>aggregate_fit\<close> and \<open>execute\<close> above take the framework's conversions,
  its aggregation and \<open>conn.send\<close> to return. Lines 36-42 and lines 96, 105
  and 108 call them outside any \<open>try\<close>, so an exception of any of them
  leaves the caller. \<open>aggregate_fit_full\<close> and \<open>execute_full\<close> are the two
  functions with these outcomes written out; they agree with
  \<open>aggregate_fit\<close> and \<open>execute\<close> whenever the calls return.
\<close>

text \<open>
  An \<open>NDArray\<close>: its shape and its entries in row-major order.
\<close>

record ndarray =
  shape :: "nat list"
  entries :: "real list"

text \<open>
  Modelled from the spec: the weighted average computed by the framework's
  \<open>aggregate\<close> (\<open>flwr.server.strategy.aggregate\<close>, which is not among the
  sources). The spec: the strategy \<^emph>\<open>computes the weighted average across all
  pairs (weight = example count)\<close>, \<^emph>\<open>computed per-tensor-position\<close>. So entry
  \<open>j\<close> of the tensor at position \<open>i\<close> is the sum over the clients of the
  example count times the client's entry, divided by the sum of the example
  counts, and the tensor keeps the shape the clients share. Numbers are exact:
  the rounding of floating-point arithmetic is not modelled. The average is
  defined when the example counts do not sum to zero and the clients' arrays
  agree, position by position, in shape and in number of entries.
\<close>

definition total_examples :: "(ndarray list \<times> int) list \<Rightarrow> int" where
  "total_examples ws = sum_list (map snd ws)"

text \<open>
  Modelled from the spec: entry \<open>j\<close> of the averaged tensor at position \<open>i\<close>
  (what the missing \<open>aggregate\<close> computes for one entry).
\<close>

definition weighted_entry :: "(ndarray list \<times> int) list \<Rightarrow> nat \<Rightarrow> nat \<Rightarrow> real" where
  "weighted_entry ws i j =
     sum_list (map (\<lambda>(w, n). of_int n * (entries (w ! i) ! j)) ws)
       / of_int (total_examples ws)"

text \<open>
  Modelled from the spec: the result of the missing \<open>aggregate\<close>, one
  averaged tensor for each tensor position of the first client, with its shape.
\<close>

fun weighted_average :: "(ndarray list \<times> int) list \<Rightarrow> ndarray list" where
  "weighted_average [] = []"
| "weighted_average ((w0, n0) # rest) =
     map (\<lambda>i. \<lparr>shape = shape (w0 ! i),
               entries = map (\<lambda>j. weighted_entry ((w0, n0) # rest) i j)
                             [0..<length (entries (w0 ! i))]\<rparr>)
         [0..<length w0]"

text \<open>
  Modelled from the spec: the inputs of the missing \<open>aggregate\<close> on which
  the weighted average is defined.
\<close>

fun averageable :: "(ndarray list \<times> int) list \<Rightarrow> bool" where
  "averageable [] = False"
| "averageable ((w0, n0) # rest) =
     (total_examples ((w0, n0) # rest) \<noteq> 0
      \<and> list_all (\<lambda>(w, n). map shape w = map shape w0
                          \<and> map (\<lambda>a. length (entries a)) w
                              = map (\<lambda>a. length (entries a)) w0) rest)"

text \<open>
  A call of a framework function raises \<open>e\<close> when the matching \<open>_raises\<close>
  field gives \<open>Some e\<close>, and returns the value of the function otherwise.
\<close>

record 'p flwr = "('p, ndarray) framework" +
  parameters_to_ndarrays_raises :: "'p \<Rightarrow> exn option"
  aggregate_raises :: "(ndarray list \<times> int) list \<Rightarrow> exn option"
  ndarrays_to_parameters_raises :: "ndarray list \<Rightarrow> exn option"

text \<open>Lines 36-39, stopping at the first conversion that raises.\<close>

fun call_weights_results ::
  "'p flwr \<Rightarrow> ('c \<times> 'p fit_res) list \<Rightarrow> exn + (ndarray list \<times> int) list" where
  "call_weights_results fw [] = Inr []"
| "call_weights_results fw ((client, fit_res) # rest) =
     (case parameters_to_ndarrays_raises fw (parameters fit_res) of
        Some e \<Rightarrow> Inl e
      | None \<Rightarrow>
          (case call_weights_results fw rest of
             Inl e \<Rightarrow> Inl e
           | Inr ws \<Rightarrow>
               Inr ((parameters_to_ndarrays fw (parameters fit_res), num_examples fit_res) # ws)))"

text \<open>
  Modelled from the spec: line 40, the call of the framework's \<open>aggregate\<close>.
  Where the weighted average is defined (equal shapes, a total example count
  other than zero) it returns that average. Elsewhere the spec says nothing,
  and the outcome is the framework's, a parameter.
\<close>

definition call_aggregate :: "'p flwr \<Rightarrow> (ndarray list \<times> int) list \<Rightarrow> exn + ndarray list" where
  "call_aggregate fw ws =
     (if averageable ws then Inr (weighted_average ws)
      else (case aggregate_raises fw ws of
              Some e \<Rightarrow> Inl e
            | None \<Rightarrow> Inr (aggregate fw ws)))"

text \<open>Lines 21-42, with the outcomes of the calls at lines 37, 40, 41 and 42.\<close>

definition aggregate_fit_full ::
  "'p flwr \<Rightarrow> strategy \<Rightarrow> int \<Rightarrow> ('c \<times> 'p fit_res) list \<Rightarrow>
   (('c \<times> 'p fit_res) + exn) list \<Rightarrow>
   (exn + ('p option \<times> metrics)) \<times> ndarray effect list" where
  "aggregate_fit_full fw self server_round results failures =
     (if results = [] then (Inr (None, Map.empty), [])
      else if \<not> accept_failures self \<and> failures \<noteq> [] then (Inr (None, Map.empty), [])
      else
        (case call_weights_results fw results of
           Inl e \<Rightarrow> (Inl e, [])
         | Inr ws \<Rightarrow>
             (case call_aggregate fw ws of
                Inl e \<Rightarrow> (Inl e, [])
              | Inr aggregated \<Rightarrow>
                  (let saved = save_params (framework.truncate fw) self aggregated;
                       steps = Call_save_params aggregated # snd saved
                   in case fst saved of
                        Inl err \<Rightarrow> (Inl err, steps)
                      | Inr _ \<Rightarrow>
                          (case ndarrays_to_parameters_raises fw aggregated of
                             Some e \<Rightarrow> (Inl e, steps)
                           | None \<Rightarrow>
                               (Inr (Some (ndarrays_to_parameters fw aggregated), Map.empty),
                                steps))))))"

text \<open>
  \<open>conn.send(reply)\<close> answering the \<open>n\<close>-th read: \<open>sends n reply\<close> is
  \<open>None\<close> when it returns and \<open>Some e\<close> when it raises \<open>e\<close> (the peer has
  gone), in which case nothing was sent.
\<close>

definition conn_send ::
  "(nat \<Rightarrow> string \<Rightarrow> exn option) \<Rightarrow> nat \<Rightarrow> string \<Rightarrow> progress \<Rightarrow> (exn + unit) \<times> progress" where
  "conn_send sends n reply st =
     (case sends n reply of
        None \<Rightarrow> (Inr (), emit [Sent reply] st)
      | Some e \<Rightarrow> (Inl e, st))"

text \<open>Lines 91-108, with the outcome of the send at lines 96, 105 and 108.\<close>

definition execute_full ::
  "(nat \<Rightarrow> string \<Rightarrow> exn option) \<Rightarrow> channel \<Rightarrow> progress \<Rightarrow> (exn + unit) \<times> progress" where
  "execute_full sends ch st =
     (case incoming ch (recvs st) of
        Recv_raises e \<Rightarrow> (Inl e, st\<lparr>recvs := Suc (recvs st)\<rparr>)
      | Message kind msg \<Rightarrow>
          (let st1 = st\<lparr>recvs := Suc (recvs st)\<rparr> in
           if kind = PyStr ''ping'' then
             conn_send sends (recvs st) ''pong'' (emit [Logged WARNING (Received msg)] st1)
           else if kind = PyStr ''server'' then
             (let st2 = emit [Logged WARNING (Launching_server msg)] st1;
                  launched =
                    (case msg of
                       PyModel m \<Rightarrow> server ch (Some m) st2
                     | _ \<Rightarrow>
                         server ch None
                           (if msg \<noteq> PyNone
                            then emit [Logged ERROR (Unknown_argument msg)] st2
                            else st2))
              in case fst launched of
                   Inl e \<Rightarrow> (Inl e, snd launched)
                 | Inr _ \<Rightarrow> conn_send sends (recvs st) ''done'' (snd launched))
           else
             conn_send sends (recvs st) ''cannot understand''
               (emit [Logged ERROR (Unknown_kind kind msg)] st1)))"

text \<open>
  Sample inputs for the two functions: a wire format that tags the arrays with
  their tensor type and decodes only that tag, an aggregation that raises on
  arrays of different shapes, and sends that return or find the peer gone.
\<close>

fun flwr_save_succeeds :: "ndarray list \<Rightarrow> tflite_model \<Rightarrow> exn option" where
  "flwr_save_succeeds params m = None"

fun flwr_save_shape_mismatch :: "ndarray list \<Rightarrow> tflite_model \<Rightarrow> exn option" where
  "flwr_save_shape_mismatch params m = Some (RuntimeError ''shape mismatch'')"

fun flwr_save_disk_full :: "ndarray list \<Rightarrow> tflite_model \<Rightarrow> exn option" where
  "flwr_save_disk_full params m = Some (OtherException ''OSError'')"

fun sample_decode_raises :: "string \<times> ndarray list \<Rightarrow> exn option" where
  "sample_decode_raises (tensor_type, tensors) =
     (if tensor_type = ''numpy.ndarray'' then None else Some (OtherException ''ValueError''))"

fun sample_aggregate_raises :: "(ndarray list \<times> int) list \<Rightarrow> exn option" where
  "sample_aggregate_raises ws = Some (OtherException ''ValueError'')"

fun sample_encode_raises :: "ndarray list \<Rightarrow> exn option" where
  "sample_encode_raises arrays = None"

fun sample_aggregate_value :: "(ndarray list \<times> int) list \<Rightarrow> ndarray list" where
  "sample_aggregate_value ws = []"

definition sample_flwr ::
  "(ndarray list \<Rightarrow> tflite_model \<Rightarrow> exn option) \<Rightarrow> (string \<times> ndarray list) flwr" where
  "sample_flwr sv =
     \<lparr>parameters_to_ndarrays = snd,
      ndarrays_to_parameters = Pair ''numpy.ndarray'',
      aggregate = sample_aggregate_value, save = sv,
      parameters_to_ndarrays_raises = sample_decode_raises,
      aggregate_raises = sample_aggregate_raises,
      ndarrays_to_parameters_raises = sample_encode_raises\<rparr>"

definition vector :: "real list \<Rightarrow> ndarray" where
  "vector xs = \<lparr>shape = [length xs], entries = xs\<rparr>"

definition two_clients :: "(nat \<times> (string \<times> ndarray list) fit_res) list" where
  "two_clients =
     [(1, \<lparr>parameters = (''numpy.ndarray'', [vector [1, 2], vector [10]]),
          num_examples = 1\<rparr>),
      (2, \<lparr>parameters = (''numpy.ndarray'', [vector [3, 4], vector [20]]),
          num_examples = 3\<rparr>)]"

definition ragged_clients :: "(nat \<times> (string \<times> ndarray list) fit_res) list" where
  "ragged_clients =
     [(1, \<lparr>parameters = (''numpy.ndarray'', [vector [1, 2], vector [10]]),
          num_examples = 1\<rparr>),
      (2, \<lparr>parameters = (''numpy.ndarray'', [vector [3, 4, 5], vector [20]]),
          num_examples = 3\<rparr>)]"

definition garbled_clients :: "(nat \<times> (string \<times> ndarray list) fit_res) list" where
  "garbled_clients =
     [(1, \<lparr>parameters = (''numpy.ndarray'', [vector [1, 2], vector [10]]),
          num_examples = 1\<rparr>),
      (2, \<lparr>parameters = (''garbage'', []), num_examples = 3\<rparr>)]"



section \<open>The strategy: what the two methods return and do\<close>

text \<open>
  With a model configured, \<open>save_params\<close> binds the parameters to it, calls
  \<open>save\<close>, and then follows the outcome: a runtime error is logged, any other
  exception leaves the method.
\<close>

lemma save_params_cases:
  "model self = Some m \<Longrightarrow> save_params fw self params =
     (case save fw params m of
        None \<Rightarrow> (Inr (), [New_ModelParams params m, Call_save params m])
      | Some e \<Rightarrow>
          if is_RuntimeError e
          then (Inr (), [New_ModelParams params m, Call_save params m, Log_error e])
          else (Inl e, [New_ModelParams params m, Call_save params m]))"
  by (simp add: save_params_def split: option.splits exn.splits)

text \<open>Past the two guards, \<open>aggregate_fit\<close> is decided by \<open>save_params\<close>.\<close>

lemma aggregate_fit_proceeds:
  "results \<noteq> [] \<Longrightarrow> failures = [] \<or> accept_failures self \<Longrightarrow>
   aggregate_fit fw self r results failures =
     (case fst (save_params fw self (aggregate fw (weights_results fw results))) of
        Inl err \<Rightarrow> Inl err
      | Inr u \<Rightarrow> Inr (Some (ndarrays_to_parameters fw (aggregate fw (weights_results fw results))),
                      Map.empty),
      Call_save_params (aggregate fw (weights_results fw results))
        # snd (save_params fw self (aggregate fw (weights_results fw results))))"
  by (auto simp: aggregate_fit_def Let_def split: sum.splits)

text \<open>
  C7. For every round number, \<open>fit_config\<close> returns the mapping with
  \<open>batch_size\<close> 32 and \<open>local_epochs\<close> 5 and no other key; two rounds get the
  same configuration.
\<close>

theorem fit_config_every_round:
  "fit_config r = [''batch_size'' \<mapsto> 32, ''local_epochs'' \<mapsto> 5]
   \<and> fit_config r ''batch_size'' = Some 32
   \<and> fit_config r ''local_epochs'' = Some 5
   \<and> dom (fit_config r) = {''batch_size'', ''local_epochs''}
   \<and> fit_config r = fit_config r'"
  by (auto simp: fit_config_def)

text \<open>
  C10. The round number does not influence \<open>aggregate_fit\<close>: with the same
  results and failures, two rounds give the same return value and the same
  persistence steps.
\<close>

theorem aggregate_fit_round_independent:
  "aggregate_fit fw self r1 results failures = aggregate_fit fw self r2 results failures"
  by (simp add: aggregate_fit_def)

text \<open>
  C8. Without a target model, \<open>save_params\<close> returns normally for every
  parameter list and does nothing: no binding is constructed, \<open>save\<close> is not
  called, nothing is logged.
\<close>

theorem save_params_without_model:
  "model self = None \<Longrightarrow> save_params fw self params = (Inr (), [])"
  by (simp add: save_params_def)

theorem save_params_without_model_witness:
  "model without_model = None
   \<and> save_params (sample_framework save_disk_full) without_model [5 / 2, 7 / 2] = (Inr (), [])"
  using save_params_without_model
          [of without_model "sample_framework save_disk_full" "[5 / 2, 7 / 2]"]
  by (simp add: without_model_def)

text \<open>
  C2. When \<open>results\<close> is empty, or \<open>failures\<close> is non-empty and failures are
  not accepted, \<open>aggregate_fit\<close> returns \<open>(None, {})\<close> and the persistence path
  is not entered: \<open>save_params\<close> is not called, so nothing is bound, saved or
  logged.
\<close>

theorem aggregate_fit_skips:
  "results = [] \<or> (failures \<noteq> [] \<and> \<not> accept_failures self) \<Longrightarrow>
   aggregate_fit fw self r results failures = (Inr (None, Map.empty), [])"
  by (auto simp: aggregate_fit_def)

theorem aggregate_fit_skips_witness:
  "aggregate_fit (sample_framework save_succeeds) with_model 3
       ([] :: (nat \<times> (string \<times> rat list) fit_res) list) []
     = (Inr (None, Map.empty), [])
   \<and> sample_failures \<noteq> [] \<and> \<not> accept_failures strict_strategy
   \<and> aggregate_fit (sample_framework save_succeeds) strict_strategy 3
        sample_results sample_failures
     = (Inr (None, Map.empty), [])"
  using aggregate_fit_skips [of "[] :: (nat \<times> (string \<times> rat list) fit_res) list" "[]"
          with_model "sample_framework save_succeeds" 3]
        aggregate_fit_skips [of sample_results sample_failures strict_strategy
          "sample_framework save_succeeds" 3]
  by (simp add: strict_strategy_def sample_failures_def)

text \<open>The sample framework on the sample results.\<close>

lemma sample_aggregated:
  "aggregate (sample_framework sv) (weights_results (sample_framework sv) sample_results)
     = [5 / 2, 7 / 2]"
  by (simp add: sample_framework_def weights_results_def sample_results_def
        sample_to_ndarrays_def)

lemma sample_save: "save (sample_framework sv) = sv"
  by (simp add: sample_framework_def)

lemma weights_results_save [simp]:
  "weights_results (fw\<lparr>save := sv\<rparr>) results = weights_results fw results"
  by (simp add: weights_results_def)

text \<open>
  C3. When \<open>save\<close> raises a runtime error, \<open>save_params\<close> logs it and returns
  normally, and \<open>aggregate_fit\<close> returns the encoded aggregate with an empty
  metrics mapping, the same value it returns when \<open>save\<close> succeeds.
\<close>

theorem runtime_error_swallowed:
  assumes "model self = Some m"
      and "save fw params m = Some (RuntimeError msg)"
  shows "save_params fw self params =
           (Inr (), [New_ModelParams params m, Call_save params m, Log_error (RuntimeError msg)])
         \<and> (results \<noteq> [] \<and> (failures = [] \<or> accept_failures self)
              \<and> params = aggregate fw (weights_results fw results) \<longrightarrow>
            aggregate_fit fw self r results failures =
              (Inr (Some (ndarrays_to_parameters fw params), Map.empty),
               [Call_save_params params, New_ModelParams params m, Call_save params m,
                Log_error (RuntimeError msg)])
            \<and> fst (aggregate_fit fw self r results failures) =
              fst (aggregate_fit (fw\<lparr>save := \<lambda>ps tm. None\<rparr>) self r results failures))"
proof -
  have sp: "save_params fw self params =
      (Inr (), [New_ModelParams params m, Call_save params m, Log_error (RuntimeError msg)])"
    using assms by (simp add: save_params_cases)
  have ok: "save_params (fw\<lparr>save := \<lambda>ps tm. None\<rparr>) self ps =
      (Inr (), [New_ModelParams ps m, Call_save ps m])" for ps
    using assms(1) by (simp add: save_params_cases)
  show ?thesis
    using sp by (auto simp: aggregate_fit_proceeds ok)
qed

theorem runtime_error_swallowed_witness:
  "model with_model = Some (TFLiteModel ''cifar10'')
   \<and> save (sample_framework save_shape_mismatch) [5 / 2, 7 / 2] (TFLiteModel ''cifar10'')
       = Some (RuntimeError ''shape mismatch'')
   \<and> sample_results \<noteq> []
   \<and> [5 / 2, 7 / 2] = aggregate (sample_framework save_shape_mismatch)
        (weights_results (sample_framework save_shape_mismatch) sample_results)
   \<and> save_params (sample_framework save_shape_mismatch) with_model [5 / 2, 7 / 2]
       = (Inr (), [New_ModelParams [5 / 2, 7 / 2] (TFLiteModel ''cifar10''),
                   Call_save [5 / 2, 7 / 2] (TFLiteModel ''cifar10''),
                   Log_error (RuntimeError ''shape mismatch'')])
   \<and> fst (aggregate_fit (sample_framework save_shape_mismatch) with_model 1 sample_results [])
       = Inr (Some (''numpy.ndarray'', [5 / 2, 7 / 2]), Map.empty)"
proof -
  have m: "model with_model = Some (TFLiteModel ''cifar10'')"
    by (simp add: with_model_def)
  have s: "save (sample_framework save_shape_mismatch) [5 / 2, 7 / 2] (TFLiteModel ''cifar10'')
       = Some (RuntimeError ''shape mismatch'')"
    by (simp add: sample_framework_def)
  have r: "sample_results \<noteq> []"
    by (simp add: sample_results_def)
  have e: "ndarrays_to_parameters (sample_framework save_shape_mismatch) [5 / 2, 7 / 2]
       = (''numpy.ndarray'', [5 / 2, 7 / 2])"
    by (simp add: sample_framework_def sample_to_parameters_def)
  show ?thesis
    using runtime_error_swallowed [OF m s, of sample_results "[]" 1] m s r e
    by (simp add: sample_aggregated)
qed

text \<open>
  C9. An exception of \<open>save\<close> that is not a runtime error leaves
  \<open>save_params\<close>, nothing is logged, and it leaves \<open>aggregate_fit\<close> as well:
  the round returns no parameters.
\<close>

theorem other_exception_propagates:
  assumes "model self = Some m"
      and "save fw params m = Some e"
      and "\<not> is_RuntimeError e"
  shows "save_params fw self params = (Inl e, [New_ModelParams params m, Call_save params m])
         \<and> (results \<noteq> [] \<and> (failures = [] \<or> accept_failures self)
              \<and> params = aggregate fw (weights_results fw results) \<longrightarrow>
            aggregate_fit fw self r results failures =
              (Inl e, [Call_save_params params, New_ModelParams params m, Call_save params m]))"
proof -
  have sp: "save_params fw self params = (Inl e, [New_ModelParams params m, Call_save params m])"
    using assms by (simp add: save_params_cases)
  show ?thesis
    using sp by (auto simp: aggregate_fit_proceeds)
qed

theorem other_exception_propagates_witness:
  "model with_model = Some (TFLiteModel ''cifar10'')
   \<and> save (sample_framework save_disk_full) [5 / 2, 7 / 2] (TFLiteModel ''cifar10'')
       = Some (OtherException ''OSError'')
   \<and> \<not> is_RuntimeError (OtherException ''OSError'')
   \<and> sample_results \<noteq> []
   \<and> [5 / 2, 7 / 2] = aggregate (sample_framework save_disk_full)
        (weights_results (sample_framework save_disk_full) sample_results)
   \<and> save_params (sample_framework save_disk_full) with_model [5 / 2, 7 / 2]
       = (Inl (OtherException ''OSError''),
          [New_ModelParams [5 / 2, 7 / 2] (TFLiteModel ''cifar10''),
           Call_save [5 / 2, 7 / 2] (TFLiteModel ''cifar10'')])
   \<and> aggregate_fit (sample_framework save_disk_full) with_model 1 sample_results []
       = (Inl (OtherException ''OSError''),
          [Call_save_params [5 / 2, 7 / 2],
           New_ModelParams [5 / 2, 7 / 2] (TFLiteModel ''cifar10''),
           Call_save [5 / 2, 7 / 2] (TFLiteModel ''cifar10'')])"
proof -
  have m: "model with_model = Some (TFLiteModel ''cifar10'')"
    by (simp add: with_model_def)
  have s: "save (sample_framework save_disk_full) [5 / 2, 7 / 2] (TFLiteModel ''cifar10'')
       = Some (OtherException ''OSError'')"
    by (simp add: sample_save)
  have n: "\<not> is_RuntimeError (OtherException ''OSError'')"
    by simp
  have r: "sample_results \<noteq> []"
    by (simp add: sample_results_def)
  show ?thesis
    using other_exception_propagates [OF m s n, of sample_results "[]" 1] m s r
    by (simp add: sample_aggregated)
qed

text \<open>
  When every conversion returns, the list comprehension of lines 36-39 is the
  list of decoded arrays paired with example counts; and the entries of the
  weighted average are the weighted sums divided by the total count.
\<close>

lemma call_weights_results_returns:
  "\<forall>(client, fit_res) \<in> set results. parameters_to_ndarrays_raises fw (parameters fit_res) = None
   \<Longrightarrow> call_weights_results fw results = Inr (weights_results (framework.truncate fw) results)"
  by (induction results) (auto simp: weights_results_def framework.truncate_def)

lemma weighted_average_entry:
  assumes "i < length (weighted_average ws)"
      and "j < length (entries (weighted_average ws ! i))"
  shows "entries (weighted_average ws ! i) ! j =
           sum_list (map (\<lambda>(w, n). of_int n * (entries (w ! i) ! j)) ws)
             / of_int (sum_list (map snd ws))"
proof (cases ws)
  case Nil
  with assms show ?thesis by simp
next
  case (Cons a rest)
  obtain w0 n0 where a: "a = (w0, n0)" by (cases a)
  from assms Cons a have i: "i < length w0" by simp
  with assms Cons a have j: "j < length (entries (w0 ! i))" by simp
  show ?thesis
    using i j by (simp add: Cons a weighted_entry_def total_examples_def)
qed

lemma map_over_positions: "map (\<lambda>i. f (xs ! i)) [0..<length xs] = map f xs"
  by (rule nth_equalityI) simp_all

lemma weighted_average_shape:
  assumes "averageable ws" and "(w, n) \<in> set ws"
  shows "map shape (weighted_average ws) = map shape w"
proof (cases ws)
  case Nil
  with assms show ?thesis by simp
next
  case (Cons a rest)
  obtain w0 n0 where a: "a = (w0, n0)" by (cases a)
  have "map shape (weighted_average ws) = map shape w0"
    by (simp add: Cons a comp_def map_over_positions)
  moreover have "map shape w = map shape w0"
    using assms Cons a by (auto simp: list_all_iff)
  ultimately show ?thesis by simp
qed

lemma sample_flwr_simps [simp]:
  "parameters_to_ndarrays (sample_flwr sv) = snd"
  "ndarrays_to_parameters (sample_flwr sv) = Pair ''numpy.ndarray''"
  "save (sample_flwr sv) = sv"
  "aggregate (sample_flwr sv) = sample_aggregate_value"
  "parameters_to_ndarrays_raises (sample_flwr sv) = sample_decode_raises"
  "aggregate_raises (sample_flwr sv) = sample_aggregate_raises"
  "ndarrays_to_parameters_raises (sample_flwr sv) = sample_encode_raises"
  "save (framework.truncate (sample_flwr sv)) = sv"
  by (simp_all add: sample_flwr_def framework.truncate_def)

lemma two_clients_average:
  "weighted_average [([vector [1, 2], vector [10]], 1), ([vector [3, 4], vector [20]], 3)]
     = [vector [5 / 2, 7 / 2], vector [35 / 2]]"
  by (simp add: weighted_entry_def total_examples_def vector_def)

lemma two_clients_averageable:
  "averageable [([vector [1, 2], vector [10]], 1), ([vector [3, 4], vector [20]], 3)]"
  by (simp add: total_examples_def vector_def)

text \<open>
  When no call raises and the average is defined, \<open>aggregate_fit_full\<close> is
  \<open>aggregate_fit\<close> over a framework whose \<open>aggregate\<close> is the weighted
  average.
\<close>

lemma aggregate_fit_full_returning:
  assumes "\<forall>(client, fit_res) \<in> set results.
             parameters_to_ndarrays_raises fw (parameters fit_res) = None"
      and "results \<noteq> [] \<longrightarrow> averageable (weights_results (framework.truncate fw) results)"
      and "\<forall>arrays. ndarrays_to_parameters_raises fw arrays = None"
  shows "aggregate_fit_full fw self r results failures =
           aggregate_fit ((framework.truncate fw)\<lparr>aggregate := weighted_average\<rparr>) self r
             results failures"
proof -
  let ?fw = "(framework.truncate fw)\<lparr>aggregate := weighted_average\<rparr>"
  have sv: "save ?fw = save (framework.truncate fw)"
    by simp
  have sp: "save_params ?fw self ps = save_params (framework.truncate fw) self ps" for ps
    unfolding save_params_def sv by (rule refl)
  have wr: "weights_results ?fw results = weights_results (framework.truncate fw) results"
    by (simp add: weights_results_def)
  have enc: "ndarrays_to_parameters ?fw = ndarrays_to_parameters fw"
    by (simp add: framework.truncate_def)
  show ?thesis
    using assms
    by (auto simp: aggregate_fit_full_def aggregate_fit_def call_weights_results_returns
          call_aggregate_def sp wr enc Let_def split: sum.splits)
qed

text \<open>
  C1, as the code has it. For non-empty \<open>results\<close>, with no failures or with
  failures accepted, and provided that every client's parameters decode, that
  the decoded arrays have equal shapes and the example counts a sum other than
  zero, that the encoding returns, and that \<open>save\<close> raises nothing but a
  runtime error, \<open>aggregate_fit\<close> returns the wire encoding of the
  example-count-weighted average of the clients' arrays, taken entry by entry
  at each tensor position, together with an empty metrics mapping.
\<close>

theorem aggregate_fit_full_weighted_average:
  assumes "results \<noteq> []"
      and "failures = [] \<or> accept_failures self"
      and "\<forall>(client, fit_res) \<in> set results.
             parameters_to_ndarrays_raises fw (parameters fit_res) = None"
      and "ws = map (\<lambda>(client, fit_res).
                       (parameters_to_ndarrays fw (parameters fit_res), num_examples fit_res))
                    results"
      and "averageable ws"
      and "ndarrays_to_parameters_raises fw (weighted_average ws) = None"
      and "\<forall>m e. model self = Some m \<and> save fw (weighted_average ws) m = Some e \<longrightarrow>
             is_RuntimeError e"
  shows "fst (aggregate_fit_full fw self r results failures) =
           Inr (Some (ndarrays_to_parameters fw (weighted_average ws)), Map.empty)
         \<and> (\<forall>i<length (weighted_average ws).
               \<forall>j<length (entries (weighted_average ws ! i)).
                 entries (weighted_average ws ! i) ! j =
                   sum_list (map (\<lambda>(w, n). of_int n * (entries (w ! i) ! j)) ws)
                     / of_int (sum_list (map snd ws)))
         \<and> (\<forall>(w, n) \<in> set ws. map shape (weighted_average ws) = map shape w)"
proof -
  have ws: "call_weights_results fw results = Inr ws"
    using assms(3,4)
    by (simp add: call_weights_results_returns weights_results_def framework.truncate_def)
  have agg: "call_aggregate fw ws = Inr (weighted_average ws)"
    using assms(5) by (simp add: call_aggregate_def)
  have "fst (save_params (framework.truncate fw) self (weighted_average ws)) = Inr ()"
  proof (cases "model self")
    case None
    then show ?thesis by (simp add: save_params_def)
  next
    case (Some m)
    then show ?thesis
      using assms(7)
      by (cases "save fw (weighted_average ws) m")
         (auto simp: save_params_cases framework.truncate_def)
  qed
  then have "fst (aggregate_fit_full fw self r results failures) =
           Inr (Some (ndarrays_to_parameters fw (weighted_average ws)), Map.empty)"
    using assms(1,2,6) by (auto simp: aggregate_fit_full_def ws agg Let_def)
  moreover have "\<forall>(w, n) \<in> set ws. map shape (weighted_average ws) = map shape w"
    using assms(5) by (auto simp: weighted_average_shape)
  ultimately show ?thesis
    by (simp add: weighted_average_entry)
qed

theorem aggregate_fit_full_weighted_average_witness:
  "two_clients \<noteq> []
   \<and> averageable [([vector [1, 2], vector [10]], 1), ([vector [3, 4], vector [20]], 3)]
   \<and> fst (aggregate_fit_full (sample_flwr flwr_save_succeeds) with_model 1 two_clients []) =
       Inr (Some (''numpy.ndarray'', [vector [5 / 2, 7 / 2], vector [35 / 2]]), Map.empty)
   \<and> accept_failures with_model
   \<and> fst (aggregate_fit_full (sample_flwr flwr_save_shape_mismatch) with_model 1 two_clients
            [Inr (OtherException ''TimeoutError'')]) =
       Inr (Some (''numpy.ndarray'', [vector [5 / 2, 7 / 2], vector [35 / 2]]), Map.empty)"
proof -
  let ?ws = "[([vector [1, 2], vector [10]], 1), ([vector [3, 4], vector [20]], 3)] :: (ndarray list \<times> int) list"
  have r: "two_clients \<noteq> []"
    by (simp add: two_clients_def)
  have a: "accept_failures with_model"
    by (simp add: with_model_def)
  have f1: "([] :: ((nat \<times> (string \<times> ndarray list) fit_res) + exn) list) = []
              \<or> accept_failures with_model"
    by simp
  have f2: "[Inr (OtherException ''TimeoutError'')] = [] \<or> accept_failures with_model"
    using a by simp
  have d: "\<forall>(client, fit_res) \<in> set two_clients.
             parameters_to_ndarrays_raises (sample_flwr sv) (parameters fit_res) = None" for sv
    by (simp add: two_clients_def)
  have w: "?ws = map (\<lambda>(client, fit_res).
                        (parameters_to_ndarrays (sample_flwr sv) (parameters fit_res),
                         num_examples fit_res))
                     two_clients" for sv
    by (simp add: two_clients_def)
  have e: "ndarrays_to_parameters_raises (sample_flwr sv) (weighted_average ?ws) = None" for sv
    by simp
  have s1: "\<forall>m e. model with_model = Some m
              \<and> save (sample_flwr flwr_save_succeeds) (weighted_average ?ws) m = Some e \<longrightarrow>
              is_RuntimeError e"
    by simp
  have s2: "\<forall>m e. model with_model = Some m
              \<and> save (sample_flwr flwr_save_shape_mismatch) (weighted_average ?ws) m = Some e \<longrightarrow>
              is_RuntimeError e"
    by auto
  have t1: "fst (aggregate_fit_full (sample_flwr flwr_save_succeeds) with_model 1 two_clients [])
      = Inr (Some (ndarrays_to_parameters (sample_flwr flwr_save_succeeds)
                     (weighted_average ?ws)), Map.empty)"
    using aggregate_fit_full_weighted_average [OF r f1 d w two_clients_averageable e s1]
    by (rule conjunct1)
  have t2: "fst (aggregate_fit_full (sample_flwr flwr_save_shape_mismatch) with_model 1
                   two_clients [Inr (OtherException ''TimeoutError'')])
      = Inr (Some (ndarrays_to_parameters (sample_flwr flwr_save_shape_mismatch)
                     (weighted_average ?ws)), Map.empty)"
    using aggregate_fit_full_weighted_average [OF r f2 d w two_clients_averageable e s2]
    by (rule conjunct1)
  show ?thesis
    using r a two_clients_averageable t1 t2
    by (simp only: two_clients_average sample_flwr_simps) simp
qed

text \<open>
  C1 as stated does not hold for every input: \<open>aggregate_fit\<close> raises
  instead of returning parameters when a model is configured and \<open>save\<close>
  raises an \<open>OSError\<close>, when two clients send arrays of different shapes
  and the aggregation raises, and when a client's parameters do not decode.
\<close>

theorem aggregate_fit_full_raises_counterexample:
  "two_clients \<noteq> [] \<and> ragged_clients \<noteq> [] \<and> garbled_clients \<noteq> []
   \<and> accept_failures with_model
   \<and> fst (aggregate_fit_full (sample_flwr flwr_save_disk_full) with_model 1 two_clients [])
       = Inl (OtherException ''OSError'')
   \<and> fst (aggregate_fit_full (sample_flwr flwr_save_succeeds) with_model 1 ragged_clients [])
       = Inl (OtherException ''ValueError'')
   \<and> fst (aggregate_fit_full (sample_flwr flwr_save_succeeds) with_model 1 garbled_clients [])
       = Inl (OtherException ''ValueError'')"
  by (simp add: aggregate_fit_full_def call_aggregate_def two_clients_def ragged_clients_def
        garbled_clients_def total_examples_def weighted_entry_def save_params_def
        with_model_def vector_def Let_def)

section \<open>The dispatcher: one command, and the loop\<close>


lemma replies_simps [simp]:
  "replies [] = []"
  "replies (Sent s # tr) = s # replies tr"
  "replies (Logged l msg # tr) = replies tr"
  "replies (Start_server a # tr) = replies tr"
  "replies (tr @ tr') = replies tr @ replies tr'"
  by (simp_all add: replies_def)

lemma server_starts_simps [simp]:
  "server_starts [] = []"
  "server_starts (Sent s # tr) = server_starts tr"
  "server_starts (Logged l msg # tr) = server_starts tr"
  "server_starts (Start_server a # tr) = a # server_starts tr"
  "server_starts (tr @ tr') = server_starts tr @ server_starts tr'"
  by (simp_all add: server_starts_def)


lemma idle_simps [simp]: "recvs idle = 0" "starts idle = 0" "trace idle = []"
  by (simp_all add: idle_def)

lemma scripted_simps [simp]:
  "incoming (scripted script outcome) = script_at script"
  "start_server (scripted script outcome) = outcome"
  by (simp_all add: scripted_def)

lemma execute_pinging: "fst (execute pinging st) = Inr ()"
  by (simp add: execute_def pinging_def)


lemma execute_full_returning:
  "\<forall>reply. sends (recvs st) reply = None \<Longrightarrow> execute_full sends ch st = execute ch st"
  by (auto simp: execute_full_def execute_def conn_send_def emit_def Let_def
        split: recv_result.splits sum.splits)






text \<open>
  The loop: if the first \<open>n\<close> iterations return and the next one raises, the
  loop ends there, returning on \<open>KeyboardInterrupt\<close> and raising otherwise;
  and a loop that ends has such a first raising iteration.
\<close>

lemma run_loop_exit:
  assumes "\<forall>k<n. fst (execute ch (after k ch st)) = Inr ()"
      and "fst (execute ch (after n ch st)) = Inl e"
  shows "run_loop ch st =
           Some (if e = KeyboardInterrupt then Inr () else Inl e, snd (execute ch (after n ch st)))"
  using assms
proof (induction n arbitrary: st)
  case 0
  obtain r st' where ex: "execute ch st = (r, st')"
    by (cases "execute ch st")
  with 0 have "r = Inl e" by simp
  with ex show ?case
    by (cases e) (simp_all add: run_loop.simps [of ch st])
next
  case (Suc n)
  obtain r st' where ex: "execute ch st = (r, st')"
    by (cases "execute ch st")
  from Suc.prems(1) have "fst (execute ch (after 0 ch st)) = Inr ()"
    by blast
  with ex have r: "r = Inr ()" by simp
  have step: "run_loop ch st = run_loop ch st'"
    using ex r by (simp add: run_loop.simps [of ch st])
  have "\<forall>k<n. fst (execute ch (after k ch st')) = Inr ()"
  proof (intro allI impI)
    fix k assume "k < n"
    then have "Suc k < Suc n" by simp
    with Suc.prems(1) have "fst (execute ch (after (Suc k) ch st)) = Inr ()"
      by blast
    then show "fst (execute ch (after k ch st')) = Inr ()"
      using ex by simp
  qed
  moreover have "fst (execute ch (after n ch st')) = Inl e"
    using Suc.prems(2) ex by simp
  ultimately have "run_loop ch st' =
      Some (if e = KeyboardInterrupt then Inr () else Inl e, snd (execute ch (after n ch st')))"
    by (rule Suc.IH)
  then show ?case
    using step ex by simp
qed

lemma run_loop_Some_raises:
  assumes "run_loop ch st = Some y"
  shows "\<exists>k. fst (execute ch (after k ch st)) \<noteq> Inr ()"
proof (rule run_loop.raw_induct
    [where P = "\<lambda>c s r. \<exists>k. fst (execute c (after k c s)) \<noteq> Inr ()", OF _ assms])
  fix loop c s r
  assume IH: "\<And>c' s' r'. loop c' s' = Some r' \<Longrightarrow>
                 \<exists>k. fst (execute c' (after k c' s')) \<noteq> Inr ()"
    and body: "(case execute c s of
                  (Inl KeyboardInterrupt, st') \<Rightarrow> Some (Inr (), st')
                | (Inl (RuntimeError list), st') \<Rightarrow> Some (Inl (RuntimeError list), st')
                | (Inl (OtherException list), st') \<Rightarrow> Some (Inl (OtherException list), st')
                | (Inr x, st') \<Rightarrow> loop c st') = Some r"
  obtain res s' where ex: "execute c s = (res, s')"
    by (cases "execute c s")
  show "\<exists>k. fst (execute c (after k c s)) \<noteq> Inr ()"
  proof (cases res)
    case (Inl e)
    with ex have "fst (execute c (after 0 c s)) \<noteq> Inr ()" by simp
    then show ?thesis by blast
  next
    case (Inr u)
    with body ex have "loop c s' = Some r" by simp
    then obtain k where "fst (execute c (after k c s')) \<noteq> Inr ()"
      using IH by blast
    then have "fst (execute c (after (Suc k) c s)) \<noteq> Inr ()"
      using ex by simp
    then show ?thesis by blast
  qed
qed

lemma run_loop_forever:
  "\<forall>k. fst (execute ch (after k ch st)) = Inr () \<Longrightarrow> run_loop ch st = None"
  using run_loop_Some_raises [of ch st] by (cases "run_loop ch st") auto

lemma first_raise:
  assumes "fst (execute ch (after k ch st)) \<noteq> Inr ()"
  shows "\<exists>n e. (\<forall>j<n. fst (execute ch (after j ch st)) = Inr ()) \<and>
               fst (execute ch (after n ch st)) = Inl e"
proof -
  define n where "n = (LEAST i. fst (execute ch (after i ch st)) \<noteq> Inr ())"
  have a: "fst (execute ch (after n ch st)) \<noteq> Inr ()"
    unfolding n_def using assms by (rule LeastI)
  have b: "\<forall>j<n. fst (execute ch (after j ch st)) = Inr ()"
    unfolding n_def using not_less_Least by blast
  from a obtain e where "fst (execute ch (after n ch st)) = Inl e"
    by (cases "fst (execute ch (after n ch st))") auto
  with b show ?thesis by blast
qed

text \<open>
  C6. \<open>run\<close> logs its start and repeats \<open>execute\<close>. A \<open>KeyboardInterrupt\<close>
  raised by an iteration makes \<open>run\<close> return normally; any other exception
  raised by an iteration leaves \<open>run\<close>; if no iteration raises, \<open>run\<close> never
  ends; and whenever \<open>run\<close> ends, it is by one of the first two ways.
\<close>

theorem run_exits:
  assumes "st0 = emit [Logged WARNING Runner_started] st"
  shows "((\<forall>k<n. fst (execute ch (after k ch st0)) = Inr ())
            \<and> fst (execute ch (after n ch st0)) = Inl KeyboardInterrupt \<longrightarrow>
          run ch st = Some (Inr (), snd (execute ch (after n ch st0))))
       \<and> ((\<forall>k<n. fst (execute ch (after k ch st0)) = Inr ())
            \<and> fst (execute ch (after n ch st0)) = Inl e \<and> e \<noteq> KeyboardInterrupt \<longrightarrow>
          run ch st = Some (Inl e, snd (execute ch (after n ch st0))))
       \<and> ((\<forall>k. fst (execute ch (after k ch st0)) = Inr ()) \<longrightarrow> run ch st = None)
       \<and> (run ch st = Some (r, st') \<longrightarrow>
            (\<exists>i x. (\<forall>k<i. fst (execute ch (after k ch st0)) = Inr ())
                 \<and> fst (execute ch (after i ch st0)) = Inl x
                 \<and> st' = snd (execute ch (after i ch st0))
                 \<and> r = (if x = KeyboardInterrupt then Inr () else Inl x)))"
proof (intro conjI impI)
  assume "(\<forall>k<n. fst (execute ch (after k ch st0)) = Inr ())
            \<and> fst (execute ch (after n ch st0)) = Inl KeyboardInterrupt"
  then show "run ch st = Some (Inr (), snd (execute ch (after n ch st0)))"
    using run_loop_exit [of n ch st0 KeyboardInterrupt] assms by (simp add: run_def)
next
  assume "(\<forall>k<n. fst (execute ch (after k ch st0)) = Inr ())
            \<and> fst (execute ch (after n ch st0)) = Inl e \<and> e \<noteq> KeyboardInterrupt"
  then show "run ch st = Some (Inl e, snd (execute ch (after n ch st0)))"
    using run_loop_exit [of n ch st0 e] assms by (simp add: run_def)
next
  assume "\<forall>k. fst (execute ch (after k ch st0)) = Inr ()"
  then show "run ch st = None"
    using run_loop_forever [of ch st0] assms by (simp add: run_def)
next
  assume "run ch st = Some (r, st')"
  then have rl: "run_loop ch st0 = Some (r, st')"
    using assms by (simp add: run_def)
  then obtain k where "fst (execute ch (after k ch st0)) \<noteq> Inr ()"
    using run_loop_Some_raises by blast
  then obtain i x where i: "\<forall>j<i. fst (execute ch (after j ch st0)) = Inr ()"
      "fst (execute ch (after i ch st0)) = Inl x"
    using first_raise by blast
  then have "run_loop ch st0 =
      Some (if x = KeyboardInterrupt then Inr () else Inl x, snd (execute ch (after i ch st0)))"
    by (rule run_loop_exit)
  with rl have "st' = snd (execute ch (after i ch st0))"
      "r = (if x = KeyboardInterrupt then Inr () else Inl x)"
    by simp_all
  with i show "\<exists>i x. (\<forall>k<i. fst (execute ch (after k ch st0)) = Inr ())
                 \<and> fst (execute ch (after i ch st0)) = Inl x
                 \<and> st' = snd (execute ch (after i ch st0))
                 \<and> r = (if x = KeyboardInterrupt then Inr () else Inl x)"
    by blast
qed

theorem run_exits_witness:
  "run (scripted [Message (PyStr ''ping'') (PyStr ''hello'')] server_returns) idle =
     Some (Inr (), \<lparr>recvs = 2, starts = 0,
                    trace = [Logged WARNING Runner_started,
                             Logged WARNING (Received (PyStr ''hello'')), Sent ''pong'']\<rparr>)
   \<and> run (scripted [Recv_raises (OtherException ''EOFError'')] server_returns) idle =
     Some (Inl (OtherException ''EOFError''),
           \<lparr>recvs = 1, starts = 0, trace = [Logged WARNING Runner_started]\<rparr>)
   \<and> run pinging idle = None"
proof -
  let ?st0 = "emit [Logged WARNING Runner_started] idle"
  let ?c1 = "scripted [Message (PyStr ''ping'') (PyStr ''hello'')] server_returns"
  let ?c2 = "scripted [Recv_raises (OtherException ''EOFError'')] server_returns"
  have st0: "?st0 = emit [Logged WARNING Runner_started] idle"
    by simp
  have x1: "execute ?c1 ?st0 =
      (Inr (), \<lparr>recvs = 1, starts = 0,
                trace = [Logged WARNING Runner_started,
                         Logged WARNING (Received (PyStr ''hello'')), Sent ''pong'']\<rparr>)"
    by (simp add: execute_def emit_def idle_def)
  have y1: "execute ?c1 (after (Suc 0) ?c1 ?st0) =
      (Inl KeyboardInterrupt, \<lparr>recvs = 2, starts = 0,
                trace = [Logged WARNING Runner_started,
                         Logged WARNING (Received (PyStr ''hello'')), Sent ''pong'']\<rparr>)"
    by (simp add: x1) (simp add: execute_def)
  have x2: "execute ?c2 (after 0 ?c2 ?st0) =
      (Inl (OtherException ''EOFError''),
       \<lparr>recvs = 1, starts = 0, trace = [Logged WARNING Runner_started]\<rparr>)"
    by (simp add: execute_def emit_def idle_def)
  have "\<forall>k<Suc 0. fst (execute ?c1 (after k ?c1 ?st0)) = Inr ()"
    by (simp add: x1)
  moreover have "fst (execute ?c1 (after (Suc 0) ?c1 ?st0)) = Inl KeyboardInterrupt"
    by (simp only: y1 fst_conv)
  ultimately have "(\<forall>k<Suc 0. fst (execute ?c1 (after k ?c1 ?st0)) = Inr ())
          \<and> fst (execute ?c1 (after (Suc 0) ?c1 ?st0)) = Inl KeyboardInterrupt"
    by (rule conjI)
  with run_exits [OF st0, of "Suc 0" ?c1]
  have "run ?c1 idle = Some (Inr (), snd (execute ?c1 (after (Suc 0) ?c1 ?st0)))"
    by blast
  then have r1: "run ?c1 idle =
      Some (Inr (), \<lparr>recvs = 2, starts = 0,
                     trace = [Logged WARNING Runner_started,
                              Logged WARNING (Received (PyStr ''hello'')), Sent ''pong'']\<rparr>)"
    by (simp only: y1 snd_conv)
  have "fst (execute ?c2 (after 0 ?c2 ?st0)) = Inl (OtherException ''EOFError'')"
    by (simp only: x2 fst_conv)
  then have "(\<forall>k<0. fst (execute ?c2 (after k ?c2 ?st0)) = Inr ())
          \<and> fst (execute ?c2 (after 0 ?c2 ?st0)) = Inl (OtherException ''EOFError'')
          \<and> OtherException ''EOFError'' \<noteq> KeyboardInterrupt"
    by simp
  with run_exits [OF st0, of 0 ?c2 "OtherException ''EOFError''"]
  have "run ?c2 idle =
      Some (Inl (OtherException ''EOFError''), snd (execute ?c2 (after 0 ?c2 ?st0)))"
    by blast
  then have r2: "run ?c2 idle =
      Some (Inl (OtherException ''EOFError''),
            \<lparr>recvs = 1, starts = 0, trace = [Logged WARNING Runner_started]\<rparr>)"
    by (simp only: x2 snd_conv)
  have "\<forall>k. fst (execute pinging (after k pinging ?st0)) = Inr ()"
    by (simp add: execute_pinging)
  with run_exits [OF st0, of 0 pinging]
  have r3: "run pinging idle = None"
    by blast
  from r1 r2 r3 show ?thesis
    by simp
qed

end
